theory Spec2Isabelle
  imports Complex_Main "HOL-Library.Word" "HOL-Library.Char_ord" "HOL-Library.List_Lexorder"
begin

section \<open>The Qt value model used by JsonSerializer.h\<close>

text \<open>
  The header converts C++ objects to and from Qt's JSON value classes. Those classes belong
  to Qt, not to the repository; the definitions of this section state the part of their
  documented contract that the header relies on.

  \<^item> A \<open>QJsonValue\<close> is null, a boolean, a double, a string, an array, an object, or
    undefined. A double is modelled by a real number (the finite doubles; NaN and the
    infinities are left out).
  \<^item> A \<open>QString\<close> is modelled by a \<open>string\<close>, ordered lexicographically by character code.
  \<^item> A \<open>QJsonArray\<close> holds no undefined value: \<open>append\<close> stores null in its place.
  \<^item> A \<open>QJsonObject\<close> keeps its entries in ascending key order, one entry per key:
    \<open>insert\<close> replaces the value of a key that is present, and removes the key when the
    value is undefined; \<open>keys()\<close> and iteration run in ascending key order. It is modelled
    by an association list that \<open>insert\<close> keeps sorted.
\<close>

datatype QJsonValue =
    Null
  | Bool bool
  | Double real
  | String string
  | Array "QJsonValue list"
  | Object "(string \<times> QJsonValue) list"
  | Undefined

type_synonym QJsonObject = "(string \<times> QJsonValue) list"
type_synonym QJsonArray = "QJsonValue list"

fun isObject :: "QJsonValue \<Rightarrow> bool" where
  "isObject (Object obj) = True"
| "isObject v = False"

fun isArray :: "QJsonValue \<Rightarrow> bool" where
  "isArray (Array a) = True"
| "isArray v = False"

fun isUndefined :: "QJsonValue \<Rightarrow> bool" where
  "isUndefined Undefined = True"
| "isUndefined v = False"

text \<open>\<open>toObject\<close>, \<open>toArray\<close> and \<open>toString\<close> return an empty object, an empty array and a null
  (empty) string when the value has another tag.\<close>

fun toObject :: "QJsonValue \<Rightarrow> QJsonObject" where
  "toObject (Object obj) = obj"
| "toObject v = []"

fun toArray :: "QJsonValue \<Rightarrow> QJsonArray" where
  "toArray (Array a) = a"
| "toArray v = []"



definition QJsonObject_remove :: "string \<Rightarrow> QJsonObject \<Rightarrow> QJsonObject" where
  "QJsonObject_remove k obj = filter (\<lambda>e. fst e \<noteq> k) obj"

text \<open>The entry \<open>(k, v)\<close> put at its place in key order, instead of the entry of \<open>k\<close> if there
  is one.\<close>

fun insert_entry :: "string \<Rightarrow> QJsonValue \<Rightarrow> QJsonObject \<Rightarrow> QJsonObject" where
  "insert_entry k v [] = [(k, v)]"
| "insert_entry k v ((k', v') # rest) =
     (if k = k' then (k, v) # rest
      else if k < k' then (k, v) # (k', v') # rest
      else (k', v') # insert_entry k v rest)"

definition QJsonObject_insert :: "string \<Rightarrow> QJsonValue \<Rightarrow> QJsonObject \<Rightarrow> QJsonObject" where
  "QJsonObject_insert k v obj =
     (if isUndefined v then QJsonObject_remove k obj else insert_entry k v obj)"

definition QJsonObject_keys :: "QJsonObject \<Rightarrow> string list" where
  "QJsonObject_keys obj = map fst obj"

text \<open>\<open>value(key)\<close> is undefined when the key is absent.\<close>

definition QJsonObject_value :: "QJsonObject \<Rightarrow> string \<Rightarrow> QJsonValue" where
  "QJsonObject_value obj k = (case map_of obj k of Some v \<Rightarrow> v | None \<Rightarrow> Undefined)"

text \<open>\<open>key.compare(propertyName, Qt::CaseInsensitive) == 0\<close>: equality after case folding.
  Strings are taken to be ASCII, where folding maps \<open>A\<close>..\<open>Z\<close> to \<open>a\<close>..\<open>z\<close> (it
  sets the bit of value 32).\<close>

definition toCaseFolded :: "char \<Rightarrow> char" where
  "toCaseFolded c =
     (if CHR ''A'' \<le> c \<and> c \<le> CHR ''Z''
      then Char (digit0 c) (digit1 c) (digit2 c) (digit3 c) (digit4 c) True (digit6 c) (digit7 c)
      else c)"

definition compare_CaseInsensitive :: "string \<Rightarrow> string \<Rightarrow> bool" where
  "compare_CaseInsensitive a b \<longleftrightarrow> map toCaseFolded a = map toCaseFolded b"

text \<open>A \<open>QJsonDocument\<close> is null (also the result of \<open>QJsonDocument::fromJson\<close> on bytes that
  do not parse), or holds an array or an object; \<open>object()\<close> returns an empty object unless
  the document holds an object.\<close>

datatype QJsonDocument = NullDocument | ArrayDocument QJsonArray | ObjectDocument QJsonObject

fun object :: "QJsonDocument \<Rightarrow> QJsonObject" where
  "object (ObjectDocument obj) = obj"
| "object d = []"

section \<open>C++ types and values\<close>

text \<open>
  \<open>Serializer<T>\<close> is chosen by the static type \<open>T\<close>. The types the header serializes are
  described by \<open>ty\<close>: the primitive types, which are the arithmetic types and \<open>QString\<close>;
  \<open>QJsonValue\<close>; the sequence containers \<open>QList<T>\<close>, \<open>QVector<T>\<close>, \<open>std::vector<T>\<close>; the
  maps \<open>QMap<K, V>\<close>, \<open>QHash<K, V>\<close>, \<open>std::map<K, V>\<close>; and the classes derived from
  \<open>JsonSerializable\<close>. Of the arithmetic types, \<open>bool\<close>, \<open>int\<close> and \<open>double\<close> have a
  constructor of their own; \<open>T_arithmetic\<close> stands for every other one and carries its name
  (\<open>char\<close>, \<open>short\<close>, \<open>long long\<close>, \<open>float\<close>, ...). A class is the list of its \<open>Q_PROPERTY\<close>
  declarations in declaration order, which is the order of \<open>metaObject()->property(i)\<close>;
  each property has its name, the name of its declared type and the type of the member
  behind it.
\<close>

datatype seq_kind = QList | QVector | std_vector
datatype map_kind = QMap | QHash | std_map

datatype ty =
    T_bool
  | T_int
  | T_double
  | T_QString
  | T_arithmetic string
  | T_QJsonValue
  | T_seq seq_kind ty
  | T_map map_kind ty ty
  | T_class "property list"
and property = Q_PROPERTY (name: string) (typeName: string) (member_type: ty)

text \<open>
  A value of another arithmetic type is the number it holds. A value of a sequence
  container is the list of its elements; a value of a map is the list of its entries in
  iteration order (ascending key order for \<open>QMap\<close> and \<open>std::map\<close>); an object is the list of
  its members \<open>m_<name>\<close>, one per property, in declaration order.
\<close>

datatype val =
    V_bool bool
  | V_int "32 word"
  | V_double real
  | V_QString string
  | V_arithmetic real
  | V_QJsonValue QJsonValue
  | V_seq "val list"
  | V_map "(val \<times> val) list"
  | V_object "val list"

text \<open>\<open>JSON_PROPERTY(type, name)\<close> declares \<open>Q_PROPERTY(QJsonValue name READ get_json_name
  WRITE set_json_name)\<close> and the member \<open>type m_name\<close>.\<close>

definition JSON_PROPERTY :: "ty \<Rightarrow> string \<Rightarrow> property" where
  "JSON_PROPERTY t n = Q_PROPERTY n ''QJsonValue'' t"

text \<open>The type of a member is smaller than the class: the recursion over types below
  terminates.\<close>

lemma size_member_type: "size (member_type p) < size p"
  by (cases p) simp

lemma size_member_type_mem [termination_simp]:
  "p \<in> set ps \<Longrightarrow> size (member_type p) < Suc (size_list size ps)"
proof -
  assume "p \<in> set ps"
  then have "size p \<le> size_list size ps" by (simp add: size_list_estimation')
  with size_member_type [of p] show ?thesis by simp
qed

lemma size_nth_member_type:
  "i < length ps \<Longrightarrow> size (member_type (ps ! i)) \<le> size_list size ps"
  using size_member_type_mem [of "ps ! i" ps] by simp

text \<open>\<open>T result;\<close>: containers and strings are empty, a \<open>QJsonValue\<close> is null, a class has
  default members. (C++ leaves a member of arithmetic type without a value; the model
  takes \<open>false\<close> and \<open>0\<close>.)\<close>

fun defaultValue :: "ty \<Rightarrow> val" where
  "defaultValue T_bool = V_bool False"
| "defaultValue T_int = V_int 0"
| "defaultValue T_double = V_double 0"
| "defaultValue T_QString = V_QString []"
| "defaultValue (T_arithmetic n) = V_arithmetic 0"
| "defaultValue T_QJsonValue = V_QJsonValue Null"
| "defaultValue (T_seq k t) = V_seq []"
| "defaultValue (T_map k kt t) = V_map []"
| "defaultValue (T_class ps) = V_object (map (\<lambda>p. defaultValue (member_type p)) ps)"

section \<open>ToJsonValue and the conversions through QVariant\<close>


text \<open>\<open>qRound64\<close> rounds a double to the nearest integer, halves away from zero.\<close>

definition qRound64 :: "real \<Rightarrow> int" where
  "qRound64 d = (if d \<ge> 0 then \<lfloor>d + 1 / 2\<rfloor> else \<lceil>d - 1 / 2\<rceil>)"

text \<open>
  \<open>json.toVariant().value<T>()\<close>. When the tag of \<open>json\<close> is the one that
  \<open>ToJsonValue<T>\<close> produces for \<open>bool\<close>, \<open>int\<close>, \<open>double\<close> or \<open>QString\<close>, the payload is
  returned (for an \<open>int\<close> the double is rounded and narrowed to 32 bits). In every other
  case, and for every other arithmetic type, the result is what \<open>QVariant\<close> makes of it
  (parsing a string as a number, printing a number as a string, a default-constructed \<open>T\<close>
  where it has no conversion, ...): this is Qt's, and is the parameter \<open>conv\<close> of the decoding
  functions.
\<close>

fun variant_value :: "(ty \<Rightarrow> QJsonValue \<Rightarrow> val) \<Rightarrow> ty \<Rightarrow> QJsonValue \<Rightarrow> val" where
  "variant_value conv T_bool json =
     (case json of Bool b \<Rightarrow> V_bool b | _ \<Rightarrow> conv T_bool json)"
| "variant_value conv T_int json =
     (case json of Double d \<Rightarrow> V_int (word_of_int (qRound64 d)) | _ \<Rightarrow> conv T_int json)"
| "variant_value conv T_double json =
     (case json of Double d \<Rightarrow> V_double d | _ \<Rightarrow> conv T_double json)"
| "variant_value conv T_QString json =
     (case json of String s \<Rightarrow> V_QString s | _ \<Rightarrow> conv T_QString json)"
| "variant_value conv t json = conv t json"

text \<open>The least a \<open>QVariant\<close> does. Decoding: no conversion, \<open>value<T>()\<close> returns a
  default-constructed \<open>T\<close>. Encoding: nothing to print, \<open>fromVariant\<close> returns null.\<close>

definition no_conversion :: "ty \<Rightarrow> QJsonValue \<Rightarrow> val" where
  "no_conversion t json = defaultValue t"




text \<open>The order of the keys of a map, \<open>operator<\<close> of the key type.\<close>

fun key_less :: "val \<Rightarrow> val \<Rightarrow> bool" where
  "key_less (V_bool a) k = (case k of V_bool b \<Rightarrow> a < b | _ \<Rightarrow> False)"
| "key_less (V_int a) k = (case k of V_int b \<Rightarrow> sint a < sint b | _ \<Rightarrow> False)"
| "key_less (V_double a) k = (case k of V_double b \<Rightarrow> a < b | _ \<Rightarrow> False)"
| "key_less (V_QString a) k = (case k of V_QString b \<Rightarrow> a < b | _ \<Rightarrow> False)"
| "key_less (V_arithmetic a) k = (case k of V_arithmetic b \<Rightarrow> a < b | _ \<Rightarrow> False)"
| "key_less a k = False"

text \<open>Insertion into the maps: \<open>QMap::insert\<close> and \<open>QHash::insert\<close> replace the value of a
  key that is present, \<open>std::map::insert\<close> keeps it. (A \<open>QHash\<close> has no iteration order of
  its own; its entries are kept in key order like those of the other two.)\<close>

fun QMap_insert :: "val \<Rightarrow> 'a \<Rightarrow> (val \<times> 'a) list \<Rightarrow> (val \<times> 'a) list" where
  "QMap_insert k v [] = [(k, v)]"
| "QMap_insert k v ((k', v') # rest) =
     (if k = k' then (k, v) # rest
      else if key_less k k' then (k, v) # (k', v') # rest
      else (k', v') # QMap_insert k v rest)"

fun std_map_insert :: "val \<Rightarrow> 'a \<Rightarrow> (val \<times> 'a) list \<Rightarrow> (val \<times> 'a) list" where
  "std_map_insert k v [] = [(k, v)]"
| "std_map_insert k v ((k', v') # rest) =
     (if k = k' then (k', v') # rest
      else if key_less k k' then (k, v) # (k', v') # rest
      else (k', v') # std_map_insert k v rest)"

fun Map_insert :: "map_kind \<Rightarrow> val \<Rightarrow> 'a \<Rightarrow> (val \<times> 'a) list \<Rightarrow> (val \<times> 'a) list" where
  "Map_insert QMap = QMap_insert"
| "Map_insert QHash = QMap_insert"
| "Map_insert std_map = std_map_insert"

section \<open>Serializer and JsonSerializable\<close>





text \<open>
  \<open>Serializer<T>::fromJson\<close> and \<open>JsonSerializable::fromJson(const QJsonValue&)\<close>. The object
  is passed in and returned; the setter \<open>set_json_name\<close> that \<open>writeOnGadget\<close> calls for
  property \<open>i\<close> assigns \<open>Serializer<type>::fromJson(value)\<close> to the member \<open>m_name\<close>. The
  inner loop over \<open>json.keys()\<close> stops at the first key that compares equal, which is
  \<open>find\<close>. For a map the key of the container is
  \<open>ToJsonValue<K>::convert(it.key()).toVariant().value<K>()\<close>, where \<open>it.key()\<close> is a
  \<open>QString\<close>: the call compiles when \<open>K\<close> is \<open>QString\<close>, and \<open>convert\<close> gives the string
  value of the key.
\<close>

function Serializer_fromJson :: "(ty \<Rightarrow> QJsonValue \<Rightarrow> val) \<Rightarrow> ty \<Rightarrow> QJsonValue \<Rightarrow> val"
  and JsonSerializable_fromJson ::
    "(ty \<Rightarrow> QJsonValue \<Rightarrow> val) \<Rightarrow> property list \<Rightarrow> QJsonValue \<Rightarrow> val list \<Rightarrow> val list" where
  "Serializer_fromJson conv T_bool json = variant_value conv T_bool json"
| "Serializer_fromJson conv T_int json = variant_value conv T_int json"
| "Serializer_fromJson conv T_double json = variant_value conv T_double json"
| "Serializer_fromJson conv T_QString json = variant_value conv T_QString json"
| "Serializer_fromJson conv (T_arithmetic n) json = variant_value conv (T_arithmetic n) json"
| "Serializer_fromJson conv T_QJsonValue json = V_QJsonValue json"
| "Serializer_fromJson conv (T_seq k t) json =
     V_seq (if isArray json
            then fold (\<lambda>item result. result @ [Serializer_fromJson conv t item]) (toArray json) []
            else [])"
| "Serializer_fromJson conv (T_map k kt t) json =
     V_map (if isObject json
            then fold (\<lambda>it result.
                        Map_insert k (variant_value conv kt (String (fst it)))
                          (Serializer_fromJson conv t (snd it)) result)
                      (toObject json) []
            else [])"
| "Serializer_fromJson conv (T_class ps) json =
     V_object (JsonSerializable_fromJson conv ps (Object (toObject json))
                 (map (\<lambda>p. defaultValue (member_type p)) ps))"
| "JsonSerializable_fromJson conv ps val this =
     (if isObject val
      then let json = toObject val in
        fold (\<lambda>i this.
               if typeName (ps ! i) \<noteq> ''QJsonValue'' then this
               else case find (\<lambda>key. compare_CaseInsensitive key (name (ps ! i)))
                              (QJsonObject_keys json) of
                      Some key \<Rightarrow>
                        this[i := Serializer_fromJson conv (member_type (ps ! i))
                                    (QJsonObject_value json key)]
                    | None \<Rightarrow> this)
             [0..<length ps] this
      else this)"
  by pat_completeness auto
termination
  by (relation "measure (\<lambda>x. case x of Inl (conv, t, json) \<Rightarrow> 2 * size t
                                   | Inr (conv, ps, val, this) \<Rightarrow> 2 * size_list size ps + 1)")
     (auto simp: size_nth_member_type le_imp_less_Suc)

text \<open>\<open>JsonSerializable::fromJson(const QByteArray&)\<close>. The parser \<open>QJsonDocument::fromJson\<close>
  is Qt's and is a parameter.\<close>

definition JsonSerializable_fromJson_bytes ::
  "(string \<Rightarrow> QJsonDocument) \<Rightarrow> (ty \<Rightarrow> QJsonValue \<Rightarrow> val) \<Rightarrow> property list \<Rightarrow> string
     \<Rightarrow> val list \<Rightarrow> val list" where
  "JsonSerializable_fromJson_bytes QJsonDocument_fromJson conv ps data this =
     JsonSerializable_fromJson conv ps (Object (object (QJsonDocument_fromJson data))) this"

text \<open>One round of the outer loop of \<open>fromJson\<close>: the value that is written to the member of
  property \<open>p\<close>, if one is written.\<close>

definition written :: "(ty \<Rightarrow> QJsonValue \<Rightarrow> val) \<Rightarrow> property \<Rightarrow> QJsonObject \<Rightarrow> val option" where
  "written conv p json =
     (if typeName p \<noteq> ''QJsonValue'' then None
      else case find (\<lambda>key. compare_CaseInsensitive key (name p)) (QJsonObject_keys json) of
             Some key \<Rightarrow> Some (Serializer_fromJson conv (member_type p) (QJsonObject_value json key))
           | None \<Rightarrow> None)"

section \<open>Objects that can be encoded and decoded again\<close>




section \<open>The classes of the repository\<close>

definition TestPerson :: "property list" where
  "TestPerson =
     [JSON_PROPERTY T_QString ''name'',
      JSON_PROPERTY T_int ''age'',
      JSON_PROPERTY (T_seq QList T_QString) ''hobbies'']"



text \<open>\<open>person1\<close> of \<open>main\<close>: name \<open>A\<close>, age 18, hobbies running and TV.\<close>

definition person1 :: "val list" where
  "person1 = [V_QString ''A'', V_int 18, V_seq [V_QString ''running'', V_QString ''TV'']]"


section \<open>Helper lemmas on loops\<close>

lemma fold_append_map: "fold (\<lambda>x r. r @ [f x]) xs acc = acc @ map f xs"
  by (induction xs arbitrary: acc) simp_all

lemma fold_unchanged: "(\<And>x s. x \<in> set xs \<Longrightarrow> f x s = s) \<Longrightarrow> fold f xs s = s"
  by (induction xs arbitrary: s) simp_all

declare JsonSerializable_fromJson.simps [simp del]

lemma fromJson_empty_object:
  "JsonSerializable_fromJson conv ps (Object []) this = this"
  by (simp add: JsonSerializable_fromJson.simps QJsonObject_keys_def fold_unchanged)

section \<open>Decoding sequences, non-objects and documents\<close>

text \<open>
  Claim C6. For each of \<open>QList\<close>, \<open>QVector\<close> and \<open>std::vector\<close> and every value \<open>v\<close>:
  decoding a \<open>v\<close> that is not an array gives the empty container (the function is total:
  nothing is raised), and decoding an array gives the decoded elements in array order.
\<close>

theorem Serializer_seq_fromJson:
  "(\<not> isArray v \<longrightarrow> Serializer_fromJson conv (T_seq k t) v = V_seq [])
   \<and> Serializer_fromJson conv (T_seq k t) (Array a) = V_seq (map (Serializer_fromJson conv t) a)"
  by (simp add: fold_append_map)

theorem Serializer_seq_fromJson_witness:
  "\<not> isArray (String ''x'')
   \<and> Serializer_fromJson no_conversion (T_seq QList T_QString) (String ''x'') = V_seq []
   \<and> Serializer_fromJson no_conversion (T_seq QList T_QString)
         (Array [String ''running'', String ''TV''])
       = V_seq [V_QString ''running'', V_QString ''TV'']"
  using Serializer_seq_fromJson
    [of "String ''x''" no_conversion QList T_QString "[String ''running'', String ''TV'']"]
  by simp

text \<open>
  Claim C7. For every class, object and value \<open>v\<close> that is not an object (null, boolean,
  number, string or array), \<open>fromJson(v)\<close> leaves every member as it was.
\<close>

theorem fromJson_not_object_untouched:
  "\<not> isObject v \<Longrightarrow> JsonSerializable_fromJson conv ps v this = this"
  by (simp add: JsonSerializable_fromJson.simps)

theorem fromJson_not_object_untouched_witness:
  "\<not> isObject (Array [String ''B'', Double 3])
   \<and> JsonSerializable_fromJson no_conversion TestPerson (Array [String ''B'', Double 3]) person1
       = person1"
  using fromJson_not_object_untouched
    [of "Array [String ''B'', Double 3]" no_conversion TestPerson person1]
  by simp

text \<open>
  Claim C8. When the bytes do not parse (\<open>QJsonDocument::fromJson\<close> returns the null
  document), \<open>fromJson(const QByteArray&)\<close> does what \<open>fromJson\<close> does on the empty object,
  and no member changes; the function returns its object, there is no error result.
\<close>

theorem fromJson_bytes_parse_failure:
  "QJsonDocument_fromJson data = NullDocument \<Longrightarrow>
     JsonSerializable_fromJson_bytes QJsonDocument_fromJson conv ps data this
       = JsonSerializable_fromJson conv ps (Object []) this
     \<and> JsonSerializable_fromJson_bytes QJsonDocument_fromJson conv ps data this = this"
  unfolding JsonSerializable_fromJson_bytes_def
  using fromJson_empty_object [of conv ps this] by simp

theorem fromJson_bytes_parse_failure_witness:
  "(\<lambda>data. if data = ''{}'' then ObjectDocument [] else NullDocument) ''{name:'' = NullDocument
   \<and> JsonSerializable_fromJson_bytes
         (\<lambda>data. if data = ''{}'' then ObjectDocument [] else NullDocument)
         no_conversion TestPerson ''{name:'' person1
       = person1"
  using fromJson_bytes_parse_failure
    [of "\<lambda>data. if data = ''{}'' then ObjectDocument [] else NullDocument" "''{name:''"
        no_conversion TestPerson person1, THEN conjunct2]
  by simp

text \<open>
  Claim C10. When the bytes parse to a document whose top level is an array,
  \<open>object()\<close> is the empty object and \<open>fromJson(const QByteArray&)\<close> leaves every member
  as it was.
\<close>

theorem fromJson_bytes_array_document:
  "QJsonDocument_fromJson data = ArrayDocument a \<Longrightarrow>
     object (QJsonDocument_fromJson data) = []
     \<and> JsonSerializable_fromJson_bytes QJsonDocument_fromJson conv ps data this = this"
  unfolding JsonSerializable_fromJson_bytes_def
  using fromJson_empty_object [of conv ps this] by simp

theorem fromJson_bytes_array_document_witness:
  "(\<lambda>data. if data = ''[]'' then ArrayDocument [] else NullDocument) ''[]'' = ArrayDocument []
   \<and> JsonSerializable_fromJson_bytes
         (\<lambda>data. if data = ''[]'' then ArrayDocument [] else NullDocument)
         no_conversion TestPerson ''[]'' person1
       = person1"
  using fromJson_bytes_array_document
    [of "\<lambda>data. if data = ''[]'' then ArrayDocument [] else NullDocument" "''[]''" "[]"
        no_conversion TestPerson person1]
  by simp

section \<open>The serializer of QJsonValue\<close>


section \<open>Insertion into a QJsonObject\<close>

lemma isUndefined_iff: "isUndefined v \<longleftrightarrow> v = Undefined"
  by (cases v) simp_all

lemma map_of_insert_entry:
  "map_of (insert_entry k v obj) = (map_of obj)(k \<mapsto> v)"
  by (induction obj) (auto simp: fun_eq_iff)



lemma map_of_QJsonObject_remove:
  "map_of (QJsonObject_remove k obj) = (map_of obj)(k := None)"
  unfolding QJsonObject_remove_def by (induction obj) (auto simp: fun_eq_iff)



lemma map_of_QJsonObject_insert:
  "map_of (QJsonObject_insert k v obj)
     = (map_of obj)(k := if isUndefined v then None else Some v)"
  by (simp add: QJsonObject_insert_def map_of_insert_entry map_of_QJsonObject_remove)











section \<open>The keys of an encoded object\<close>







section \<open>Encoding maps\<close>







section \<open>The members after decoding\<close>

lemma fold_list_update_length:
  "length (fold (\<lambda>i xs. case w i of Some x \<Rightarrow> xs[i := x] | None \<Rightarrow> xs) is xs) = length xs"
  by (induction "is" arbitrary: xs) (simp_all split: option.splits)

lemma fold_list_update_nth:
  "distinct is \<Longrightarrow> j < length xs \<Longrightarrow>
     fold (\<lambda>i xs. case w i of Some x \<Rightarrow> xs[i := x] | None \<Rightarrow> xs) is xs ! j
       = (if j \<in> set is then (case w j of Some x \<Rightarrow> x | None \<Rightarrow> xs ! j) else xs ! j)"
proof (induction "is" arbitrary: xs)
  case Nil
  then show ?case by simp
next
  case (Cons a "is")
  let ?xs' = "case w a of Some x \<Rightarrow> xs[a := x] | None \<Rightarrow> xs"
  have len: "j < length ?xs'" using Cons.prems by (simp split: option.splits)
  have dist: "distinct is" and notin: "a \<notin> set is" using Cons.prems by simp_all
  have step: "fold (\<lambda>i xs. case w i of Some x \<Rightarrow> xs[i := x] | None \<Rightarrow> xs) (a # is) xs ! j
                = (if j \<in> set is then (case w j of Some x \<Rightarrow> x | None \<Rightarrow> ?xs' ! j) else ?xs' ! j)"
    using Cons.IH [OF dist len] by simp
  show ?case
  proof (cases "j = a")
    case True
    with notin Cons.prems show ?thesis unfolding step by (simp split: option.splits)
  next
    case False
    then have "?xs' ! j = xs ! j" by (simp split: option.splits)
    with False show ?thesis unfolding step by (simp cong: option.case_cong)
  qed
qed

lemma JsonSerializable_fromJson_written:
  "JsonSerializable_fromJson conv ps (Object json) this
     = fold (\<lambda>i this. case written conv (ps ! i) json of Some x \<Rightarrow> this[i := x] | None \<Rightarrow> this)
            [0..<length ps] this"
  unfolding JsonSerializable_fromJson.simps
  by (auto intro!: fold_cong simp: written_def Let_def split: option.splits)

lemma JsonSerializable_fromJson_length:
  "length (JsonSerializable_fromJson conv ps val this) = length this"
proof (cases val)
  case (Object json)
  then show ?thesis by (simp add: JsonSerializable_fromJson_written fold_list_update_length)
qed (simp_all add: JsonSerializable_fromJson.simps)

lemma JsonSerializable_fromJson_nth:
  assumes "i < length ps" and "i < length this"
  shows "JsonSerializable_fromJson conv ps (Object json) this ! i
           = (case written conv (ps ! i) json of Some x \<Rightarrow> x | None \<Rightarrow> this ! i)"
  unfolding JsonSerializable_fromJson_written
  using fold_list_update_nth [of "[0..<length ps]" i this "\<lambda>i. written conv (ps ! i) json"] assms
  by simp


section \<open>Matching keys against property names\<close>

lemma find_keys_insert_entry:
  "\<not> P k \<Longrightarrow> find P (map fst (insert_entry k x json)) = find P (map fst json)"
  by (induction json) auto

lemma find_keys_remove:
  "\<not> P k \<Longrightarrow> find P (map fst (QJsonObject_remove k json)) = find P (map fst json)"
  unfolding QJsonObject_remove_def by (induction json) auto

lemma find_keys_insert:
  "\<not> P k \<Longrightarrow> find P (map fst (QJsonObject_insert k x json)) = find P (map fst json)"
  by (simp add: QJsonObject_insert_def find_keys_insert_entry find_keys_remove)

lemma written_insert_unmatched:
  assumes "\<not> compare_CaseInsensitive k (name p)"
  shows "written conv p (QJsonObject_insert k x json) = written conv p json"
proof (cases "find (\<lambda>key. compare_CaseInsensitive key (name p)) (map fst json)")
  case None
  with assms show ?thesis
    by (simp add: written_def QJsonObject_keys_def find_keys_insert)
next
  case (Some key)
  then have "compare_CaseInsensitive key (name p)"
    by (auto simp: find_Some_iff)
  with assms have "key \<noteq> k" by auto
  then have "QJsonObject_value (QJsonObject_insert k x json) key = QJsonObject_value json key"
    by (simp add: QJsonObject_value_def map_of_QJsonObject_insert)
  with assms Some show ?thesis
    by (simp add: written_def QJsonObject_keys_def find_keys_insert)
qed

text \<open>
  Claim C4. Keys are matched against property names without regard to case, and the first
  key in the scan of \<open>json.keys()\<close> that matches is the one whose value is decoded and
  written: when \<open>find\<close> returns \<open>key\<close> for property \<open>i\<close>, member \<open>i\<close> becomes the decoding of
  the value under \<open>key\<close>. At the object with the keys \<open>NAME\<close> and \<open>name\<close>, the property \<open>name\<close>
  of \<open>TestPerson\<close> is given the value under \<open>NAME\<close>.
\<close>

theorem fromJson_first_match:
  assumes "i < length ps" and "i < length this" and "typeName (ps ! i) = ''QJsonValue''"
    and "find (\<lambda>key. compare_CaseInsensitive key (name (ps ! i))) (QJsonObject_keys json) = Some key"
  shows "JsonSerializable_fromJson conv ps (Object json) this ! i
           = Serializer_fromJson conv (member_type (ps ! i)) (QJsonObject_value json key)"
  using JsonSerializable_fromJson_nth [OF assms(1,2), of conv json] assms(3,4)
  by (simp add: written_def)

theorem fromJson_first_match_witness:
  "(0::nat) < length TestPerson \<and> 0 < length person1 \<and> typeName (TestPerson ! 0) = ''QJsonValue''
   \<and> find (\<lambda>key. compare_CaseInsensitive key (name (TestPerson ! 0)))
        (QJsonObject_keys [(''NAME'', String ''B''), (''name'', String ''C'')]) = Some ''NAME''
   \<and> JsonSerializable_fromJson no_conversion TestPerson
        (Object [(''NAME'', String ''B''), (''name'', String ''C'')]) person1 ! 0 = V_QString ''B''"
  using fromJson_first_match [of 0 TestPerson person1 "[(''NAME'', String ''B''), (''name'', String ''C'')]" "''NAME''" no_conversion]
  by (simp add: TestPerson_def person1_def JSON_PROPERTY_def QJsonObject_keys_def
      QJsonObject_value_def compare_CaseInsensitive_def toCaseFolded_def)

text \<open>
  Claim C3, as amended. \<open>fromJson\<close> returns the object (there is no error result) with as
  many members as before; a member whose property name no key of the input matches
  (ignoring case) keeps its value, whatever the input; and a key that matches no declared
  property name can be added to the input without changing the result. (A member whose
  property name is matched is overwritten by the decoding of the matched value, also when
  that value is malformed.)
\<close>

theorem fromJson_unmatched_retained:
  "(i < length ps \<longrightarrow> i < length this \<longrightarrow>
      (\<forall>key \<in> set (QJsonObject_keys (toObject v)). \<not> compare_CaseInsensitive key (name (ps ! i))) \<longrightarrow>
      JsonSerializable_fromJson conv ps v this ! i = this ! i)
   \<and> ((\<forall>p \<in> set ps. \<not> compare_CaseInsensitive k (name p)) \<longrightarrow>
      JsonSerializable_fromJson conv ps (Object (QJsonObject_insert k x json)) this
        = JsonSerializable_fromJson conv ps (Object json) this)
   \<and> length (JsonSerializable_fromJson conv ps v this) = length this"
proof (intro conjI impI)
  assume i: "i < length ps" "i < length this"
    and unmatched: "\<forall>key \<in> set (QJsonObject_keys (toObject v)).
                      \<not> compare_CaseInsensitive key (name (ps ! i))"
  show "JsonSerializable_fromJson conv ps v this ! i = this ! i"
  proof (cases "isObject v")
    case False
    then show ?thesis by (simp add: JsonSerializable_fromJson.simps)
  next
    case True
    then obtain json where v: "v = Object json" by (cases v) simp_all
    from unmatched have "find (\<lambda>key. compare_CaseInsensitive key (name (ps ! i)))
                           (QJsonObject_keys json) = None"
      by (simp add: v find_None_iff)
    then have "written conv (ps ! i) json = None"
      by (simp add: written_def)
    with JsonSerializable_fromJson_nth [OF i, of conv json] show ?thesis
      by (simp add: v)
  qed
next
  assume extra: "\<forall>p \<in> set ps. \<not> compare_CaseInsensitive k (name p)"
  have "written conv (ps ! i) (QJsonObject_insert k x json) = written conv (ps ! i) json"
    if "i < length ps" for i
    using extra that by (simp add: written_insert_unmatched)
  then show "JsonSerializable_fromJson conv ps (Object (QJsonObject_insert k x json)) this
               = JsonSerializable_fromJson conv ps (Object json) this"
    unfolding JsonSerializable_fromJson_written
    by (intro fold_cong) simp_all
next
  show "length (JsonSerializable_fromJson conv ps v this) = length this"
    by (rule JsonSerializable_fromJson_length)
qed

theorem fromJson_unmatched_retained_witness:
  "JsonSerializable_fromJson no_conversion TestPerson (Object [(''name'', String ''B'')]) person1 ! 1
     = V_int 18
   \<and> JsonSerializable_fromJson no_conversion TestPerson
        (Object (QJsonObject_insert ''email'' (String ''x'') [(''name'', String ''B'')])) person1
       = JsonSerializable_fromJson no_conversion TestPerson (Object [(''name'', String ''B'')]) person1
   \<and> length (JsonSerializable_fromJson no_conversion TestPerson (Object [(''name'', String ''B'')])
        person1) = 3"
  using fromJson_unmatched_retained [of 1 TestPerson person1 "Object [(''name'', String ''B'')]"
          no_conversion "''email''" "String ''x''" "[(''name'', String ''B'')]"]
  by (simp add: TestPerson_def person1_def JSON_PROPERTY_def QJsonObject_keys_def
      compare_CaseInsensitive_def toCaseFolded_def)

text \<open>The claim as stated lets a property keep its value when its input is malformed. The
  hobbies of \<open>person1\<close> are running and TV; after decoding an object that has a number under
  \<open>hobbies\<close> they are the empty list.\<close>

theorem fromJson_malformed_overwritten_counterexample:
  "JsonSerializable_fromJson no_conversion TestPerson (Object [(''hobbies'', Double 5)]) person1 ! 2
     \<noteq> person1 ! 2"
  by (simp add: JsonSerializable_fromJson.simps TestPerson_def person1_def JSON_PROPERTY_def
      QJsonObject_keys_def QJsonObject_value_def compare_CaseInsensitive_def toCaseFolded_def)

section \<open>Encoding and decoding again\<close>

























end
